theory Spec2Isabelle
  imports Complex_Main
begin

section \<open>The softcut processor (scripts/amen.js, second document): data\<close>

text \<open>
  JavaScript numbers are modelled as real numbers: rounding, NaN and the infinities of
  IEEE arithmetic are outside the model, and so is the rounding of a store into a
  Float32Array. Where the source would compute NaN from finite inputs (a division by
  zero) the model has an explicit branch.
  Flags such as \<open>enabled\<close> are numbers in the source (0 or 1, tested for truthiness),
  and numbers here.
\<close>

definition NUM_VOICES :: nat where
  "NUM_VOICES = 6"

definition NUM_BUFFERS :: nat where
  "NUM_BUFFERS = 2"

definition SAMPLE_RATE :: nat where
  "SAMPLE_RATE = 48000"

definition BUF_DURATION :: nat where
  "BUF_DURATION = 350"

definition BUF_FRAMES :: nat where
  "BUF_FRAMES = SAMPLE_RATE * BUF_DURATION"

datatype error = TypeError

record voice =
  enabled :: real
  playing :: real
  buffer :: real
  rate :: real
  level :: real
  pan :: real
  position :: real
  phase :: real
  loop :: real
  loop_start :: real
  loop_end :: real
  fade_time :: real
  level_slew_time :: real
  level_target :: real
  rec :: real
  rec_level :: real
  pre_level :: real
  phase_quant :: real
  phase_accum :: real

text \<open>Messages posted by the processor to the main thread.\<close>

datatype event =
  Phase_event nat real
| Buffer_data int "real list"

record engine =
  buffers :: "real list list"
  voices :: "voice list"
  phasePolling :: bool
  port :: "event list"

text \<open>Truthiness of a number: \<open>if (x)\<close> holds unless \<open>x\<close> is 0.\<close>

definition truthy :: "real \<Rightarrow> bool" where
  "truthy x = (x \<noteq> 0)"

text \<open>The voice object pushed by the constructor for index \<open>i\<close>.\<close>

definition new_voice :: "nat \<Rightarrow> voice" where
  "new_voice i =
     \<lparr> enabled = 0, playing = 0, buffer = (if i < 3 then 0 else 1), rate = 1, level = 1,
       pan = 0, position = 0, phase = 0, loop = 0, loop_start = 0,
       loop_end = real BUF_DURATION, fade_time = 1 / 100, level_slew_time = 0,
       level_target = 1, rec = 0, rec_level = 1, pre_level = 0, phase_quant = 0,
       phase_accum = 0 \<rparr>"

definition constructor :: engine where
  "constructor =
     \<lparr> buffers = [replicate BUF_FRAMES 0, replicate BUF_FRAMES 0],
       voices = map new_voice [0..<NUM_VOICES],
       phasePolling = False,
       port = [] \<rparr>"

text \<open>
  The messages of the main thread. The source tags them with a string \<open>cmd\<close>; the
  commands that address a voice carry \<open>voice\<close> and \<open>value\<close>.
\<close>

datatype vcmd =
  Enable | Play | Buffer | Rate | Level | Pan | Position | Loop | Loop_start | Loop_end
| Fade_time | Level_slew_time | Rec | Rec_level | Pre_level | Phase_quant

datatype msg =
  Voice_msg vcmd int real
| Poll_start_phase
| Poll_stop_phase
| Buffer_clear
| Buffer_clear_channel int
| Buffer_clear_region real real
| Buffer_load "real list" int real
| Buffer_read int real real
| Reset

section \<open>Typed arrays\<close>

text \<open>
  A store into a Float32Array at an index outside the array is ignored, and
  \<open>fill(0)\<close> keeps the length.
\<close>

definition ta_set :: "real list \<Rightarrow> int \<Rightarrow> real \<Rightarrow> real list" where
  "ta_set buf i x = (if 0 \<le> i \<and> i < int (length buf) then buf[nat i := x] else buf)"

definition fill0 :: "real list \<Rightarrow> real list" where
  "fill0 buf = replicate (length buf) 0"

text \<open>
  \<open>this.buffers[k]\<close> and \<open>this.voices[k]\<close> for a number \<open>k\<close>: the element, or
  undefined (here None) when \<open>k\<close> is not an index of the array. Using a property of
  undefined raises a TypeError.
\<close>

definition index_of :: "real \<Rightarrow> nat \<Rightarrow> nat option" where
  "index_of k n = (if k \<in> \<int> \<and> 0 \<le> k \<and> k < real n then Some (nat \<lfloor>k\<rfloor>) else None)"

definition slice :: "real list \<Rightarrow> int \<Rightarrow> int \<Rightarrow> real list" where
  "slice buf s e =
     (let n = int (length buf);
          k = (if s < 0 then max (n + s) 0 else min s n);
          f = (if e < 0 then max (n + e) 0 else min e n)
      in take (nat (f - k)) (drop (nat k) buf))"

section \<open>Message handling\<close>

text \<open>The assignment of one voice command to the voice it addresses.\<close>

fun set_voice :: "real \<Rightarrow> vcmd \<Rightarrow> real \<Rightarrow> voice \<Rightarrow> voice" where
  "set_voice sampleRate Enable x v = v\<lparr>enabled := x\<rparr>"
| "set_voice sampleRate Play x v = v\<lparr>playing := x\<rparr>"
| "set_voice sampleRate Buffer x v = v\<lparr>buffer := x\<rparr>"
| "set_voice sampleRate Rate x v = v\<lparr>rate := x\<rparr>"
| "set_voice sampleRate Level x v =
     (let v1 = v\<lparr>level_target := x\<rparr>
      in if level_slew_time v1 \<le> 0 then v1\<lparr>level := x\<rparr> else v1)"
| "set_voice sampleRate Pan x v = v\<lparr>pan := x\<rparr>"
| "set_voice sampleRate Position x v = v\<lparr>phase := x * sampleRate\<rparr>"
| "set_voice sampleRate Loop x v = v\<lparr>loop := x\<rparr>"
| "set_voice sampleRate Loop_start x v = v\<lparr>loop_start := x\<rparr>"
| "set_voice sampleRate Loop_end x v = v\<lparr>loop_end := x\<rparr>"
| "set_voice sampleRate Fade_time x v = v\<lparr>fade_time := x\<rparr>"
| "set_voice sampleRate Level_slew_time x v = v\<lparr>level_slew_time := x\<rparr>"
| "set_voice sampleRate Rec x v = v\<lparr>rec := x\<rparr>"
| "set_voice sampleRate Rec_level x v = v\<lparr>rec_level := x\<rparr>"
| "set_voice sampleRate Pre_level x v = v\<lparr>pre_level := x\<rparr>"
| "set_voice sampleRate Phase_quant x v = v\<lparr>phase_quant := x\<rparr>"

text \<open>
  The inner loop of \<open>buffer_clear_region\<close>:
  \<open>for (let i = startSamp; i < endSamp && i < BUF_FRAMES; i++) buf[i] = 0\<close>.
\<close>

function clear_loop :: "int \<Rightarrow> int \<Rightarrow> real list \<Rightarrow> real list" where
  "clear_loop i endSamp buf =
     (if i < endSamp \<and> i < int BUF_FRAMES then clear_loop (i + 1) endSamp (ta_set buf i 0)
      else buf)"
  by pat_completeness auto
termination
  by (relation "measure (\<lambda>(i, endSamp, buf). nat (min endSamp (int BUF_FRAMES) - i))") auto

text \<open>
  The loop of \<open>buffer_load\<close>: \<open>for (let i = 0; i < len; i++) buf[dst + i] = data[i]\<close>.
  It reads \<open>data\<close> below its length only, since \<open>len \<le> data.length\<close>.
\<close>

definition load_loop :: "int \<Rightarrow> real list \<Rightarrow> int \<Rightarrow> real list \<Rightarrow> real list" where
  "load_loop dst data len buf =
     fold (\<lambda>i b. ta_set b (dst + int i) (data ! i)) [0..<nat len] buf"

text \<open>The assignments of \<open>reset\<close> to the voice at index \<open>i\<close>.\<close>

definition reset_voice :: "nat \<Rightarrow> voice \<Rightarrow> voice" where
  "reset_voice i v =
     v\<lparr> enabled := 0, playing := 0, buffer := (if i < 3 then 0 else 1), rate := 1,
        level := 1, level_target := 1, pan := 0, position := 0, phase := 0, loop := 0,
        loop_start := 0, loop_end := real BUF_DURATION, fade_time := 1 / 100,
        level_slew_time := 0, rec := 0, rec_level := 1, pre_level := 0,
        phase_quant := 0, phase_accum := 0 \<rparr>"

text \<open>
  \<open>_handleMessage\<close>. \<open>sampleRate\<close> is the global of the audio worklet scope. The
  engine always holds \<open>NUM_BUFFERS\<close> buffers and \<open>NUM_VOICES\<close> voices, so the loops
  over all of them index inside the arrays.
\<close>

fun handleMessage :: "real \<Rightarrow> msg \<Rightarrow> engine \<Rightarrow> error + engine" where
  "handleMessage sampleRate (Voice_msg c k x) st =
     (case index_of (real_of_int k) (length (voices st)) of
        None \<Rightarrow> Inl TypeError
      | Some i \<Rightarrow>
          Inr (st\<lparr>voices := (voices st)[i := set_voice sampleRate c x (voices st ! i)]\<rparr>))"
| "handleMessage sampleRate Poll_start_phase st = Inr (st\<lparr>phasePolling := True\<rparr>)"
| "handleMessage sampleRate Poll_stop_phase st = Inr (st\<lparr>phasePolling := False\<rparr>)"
| "handleMessage sampleRate Buffer_clear st =
     Inr (st\<lparr>buffers :=
       ((buffers st)[0 := fill0 (buffers st ! 0)])
         [1 := fill0 (((buffers st)[0 := fill0 (buffers st ! 0)]) ! 1)]\<rparr>)"
| "handleMessage sampleRate (Buffer_clear_channel ch) st =
     (case index_of (real_of_int ch) (length (buffers st)) of
        None \<Rightarrow> Inl TypeError
      | Some b \<Rightarrow> Inr (st\<lparr>buffers := (buffers st)[b := fill0 (buffers st ! b)]\<rparr>))"
| "handleMessage sampleRate (Buffer_clear_region start dur) st =
     (let startSamp = \<lfloor>start * sampleRate\<rfloor>;
          endSamp = \<lfloor>(start + dur) * sampleRate\<rfloor>
      in Inr (st\<lparr>buffers :=
           fold (\<lambda>b bs. bs[b := clear_loop startSamp endSamp (bs ! b)])
             [0..<NUM_BUFFERS] (buffers st)\<rparr>))"
| "handleMessage sampleRate (Buffer_load data ch start_dst) st =
     (let dst = \<lfloor>start_dst * sampleRate\<rfloor>;
          len = min (int (length data)) (int BUF_FRAMES - dst)
      in case index_of (real_of_int ch) (length (buffers st)) of
           None \<Rightarrow> if 0 < len then Inl TypeError else Inr st
         | Some b \<Rightarrow> Inr (st\<lparr>buffers := (buffers st)[b := load_loop dst data len (buffers st ! b)]\<rparr>))"
| "handleMessage sampleRate (Buffer_read ch start dur) st =
     (let readStart = \<lfloor>start * sampleRate\<rfloor>;
          readLen = \<lfloor>dur * sampleRate\<rfloor>
      in case index_of (real_of_int ch) (length (buffers st)) of
           None \<Rightarrow> Inl TypeError
         | Some b \<Rightarrow>
             Inr (st\<lparr>port := port st @
               [Buffer_data ch (slice (buffers st ! b) readStart (readStart + readLen))]\<rparr>))"
| "handleMessage sampleRate Reset st =
     Inr (st\<lparr>buffers :=
            ((buffers st)[0 := fill0 (buffers st ! 0)])
              [1 := fill0 (((buffers st)[0 := fill0 (buffers st ! 0)]) ! 1)],
          voices :=
            fold (\<lambda>i vs. vs[i := reset_voice i (vs ! i)]) [0..<NUM_VOICES] (voices st)\<rparr>)"

text \<open>
  The shape the constructor gives the engine and every message keeps: two buffers of
  \<open>BUF_FRAMES\<close> samples and six voices.
\<close>

definition engine_shape :: "engine \<Rightarrow> bool" where
  "engine_shape st =
     (length (buffers st) = NUM_BUFFERS \<and> length (buffers st ! 0) = BUF_FRAMES
      \<and> length (buffers st ! 1) = BUF_FRAMES \<and> length (voices st) = NUM_VOICES)"

section \<open>The audio callback\<close>

text \<open>
  \<open>process(inputs, outputs)\<close> mutates the engine and the two output channels. The
  state threaded through its loops is the engine with \<open>outL\<close> and \<open>outR\<close>. An
  exception leaves \<open>process\<close> at once: the loops are folds that stop at the first error.
\<close>

record pstate =
  eng :: engine
  outL :: "real list"
  outR :: "real list"

primrec foldM :: "('a \<Rightarrow> 's \<Rightarrow> error + 's) \<Rightarrow> 'a list \<Rightarrow> 's \<Rightarrow> error + 's" where
  "foldM f [] s = Inr s"
| "foldM f (x # xs) s = (case f x s of Inl e \<Rightarrow> Inl e | Inr s' \<Rightarrow> foldM f xs s')"

text \<open>
  The constants a voice computes before its frame loop. \<open>buf\<close> is
  \<open>this.buffers[voice.buffer]\<close>, a reference to one of the shared buffers: its index
  among them, or None when \<open>voice.buffer\<close> is not an index (then \<open>buf\<close> is undefined
  and reading or writing an element of it raises a TypeError).
\<close>

record vconsts =
  buf :: "nat option"
  loopStartSamp :: real
  loopEndSamp :: real
  loopLen :: real
  fadeSamples :: real
  slewRate :: real
  gainL :: real
  gainR :: real

definition voice_consts :: "real \<Rightarrow> engine \<Rightarrow> voice \<Rightarrow> vconsts" where
  "voice_consts sampleRate st v =
     (let panNorm = (pan v + 1) * (1 / 2)
      in \<lparr> buf = index_of (buffer v) (length (buffers st)),
           loopStartSamp = loop_start v * sampleRate,
           loopEndSamp = loop_end v * sampleRate,
           loopLen = loop_end v * sampleRate - loop_start v * sampleRate,
           fadeSamples = fade_time v * sampleRate,
           slewRate = (if level_slew_time v > 0 then 1 / (level_slew_time v * sampleRate) else 1),
           gainL = cos (panNorm * pi * (1 / 2)),
           gainR = sin (panNorm * pi * (1 / 2)) \<rparr>)"

definition level_slew :: "real \<Rightarrow> voice \<Rightarrow> voice" where
  "level_slew slew v =
     (if level v \<noteq> level_target v then
        (let diff = level_target v - level v
         in if \<bar>diff\<bar> < slew then v\<lparr>level := level_target v\<rparr>
            else v\<lparr>level := level v + sgn diff * slew\<rparr>)
      else v)"

text \<open>The read with linear interpolation (the \<open>sample\<close> of the source).\<close>

definition read_sample :: "real list option \<Rightarrow> real \<Rightarrow> error + real" where
  "read_sample b ph =
     (let idx0 = \<lfloor>ph\<rfloor>;
          frac = ph - of_int idx0;
          idx1 = idx0 + 1
      in if idx0 \<ge> 0 \<and> idx1 < int BUF_FRAMES then
           (case b of None \<Rightarrow> Inl TypeError
            | Some xs \<Rightarrow> Inr (xs ! nat idx0 * (1 - frac) + xs ! nat idx1 * frac))
         else if idx0 \<ge> 0 \<and> idx0 < int BUF_FRAMES then
           (case b of None \<Rightarrow> Inl TypeError | Some xs \<Rightarrow> Inr (xs ! nat idx0))
         else Inr 0)"

definition fade_gain :: "vconsts \<Rightarrow> voice \<Rightarrow> real \<Rightarrow> real" where
  "fade_gain c v ph =
     (if truthy (loop v) \<and> fadeSamples c > 0 \<and> loopLen c > 0 then
        (let distFromStart = ph - loopStartSamp c;
             distFromEnd = loopEndSamp c - ph
         in if distFromStart \<ge> 0 \<and> distFromStart < fadeSamples c then
              distFromStart / fadeSamples c
            else if distFromEnd \<ge> 0 \<and> distFromEnd < fadeSamples c then
              distFromEnd / fadeSamples c
            else 1)
      else 1)"

text \<open>\<open>inMono ? inMono[i] : 0\<close>\<close>

definition input_sample :: "real list option \<Rightarrow> nat \<Rightarrow> real" where
  "input_sample inMono i = (case inMono of None \<Rightarrow> 0 | Some xs \<Rightarrow> xs ! i)"

text \<open>The recording step; the result is the shared buffers after the write.\<close>

definition record_write ::
  "vconsts \<Rightarrow> voice \<Rightarrow> real \<Rightarrow> real \<Rightarrow> real list list \<Rightarrow> error + real list list" where
  "record_write c v ph inputSample bufs =
     (if truthy (rec v) then
        (let recIdx = \<lfloor>ph\<rfloor>
         in if recIdx \<ge> 0 \<and> recIdx < int BUF_FRAMES then
              (case buf c of None \<Rightarrow> Inl TypeError
               | Some b \<Rightarrow>
                   Inr (bufs[b := ta_set (bufs ! b) recIdx
                     (rec_level v * inputSample + pre_level v * (bufs ! b ! nat recIdx))]))
            else Inr bufs)
      else Inr bufs)"

text \<open>Advance the phase, then the loop and boundary handling.\<close>

definition advance :: "vconsts \<Rightarrow> voice \<Rightarrow> voice" where
  "advance c v =
     (let v1 = v\<lparr>phase := phase v + rate v\<rparr>
      in if truthy (loop v1) \<and> loopLen c > 0 then
           (if rate v1 > 0 \<and> phase v1 \<ge> loopEndSamp c then
              v1\<lparr>phase := loopStartSamp c + (phase v1 - loopEndSamp c)\<rparr>
            else if rate v1 < 0 \<and> phase v1 < loopStartSamp c then
              v1\<lparr>phase := loopEndSamp c - (loopStartSamp c - phase v1)\<rparr>
            else v1)
         else
           (if phase v1 \<ge> real BUF_FRAMES \<or> phase v1 < 0 then v1\<lparr>playing := 0\<rparr> else v1))"

text \<open>The phase reporting accumulator: the voice after it and the messages posted.\<close>

definition phase_report :: "real \<Rightarrow> bool \<Rightarrow> nat \<Rightarrow> voice \<Rightarrow> voice \<times> event list" where
  "phase_report sampleRate polling vi v =
     (if polling \<and> phase_quant v > 0 then
        (let v1 = v\<lparr>phase_accum := phase_accum v + \<bar>rate v\<bar>\<rparr>;
             quantSamples = phase_quant v1 * sampleRate
         in if phase_accum v1 \<ge> quantSamples then
              (v1\<lparr>phase_accum := phase_accum v1 - quantSamples\<rparr>,
               [Phase_event vi (phase v1 / sampleRate)])
            else (v1, []))
      else (v, []))"

text \<open>One iteration of the frame loop of voice \<open>vi\<close>, at frame \<open>i\<close>.\<close>

definition frame ::
  "real \<Rightarrow> real list option \<Rightarrow> nat \<Rightarrow> vconsts \<Rightarrow> nat \<Rightarrow> pstate \<Rightarrow> error + pstate" where
  "frame sampleRate inMono vi c i ps =
     (let st = eng ps;
          v1 = level_slew (slewRate c) (voices st ! vi)
      in if \<not> truthy (playing v1) then
           Inr (ps\<lparr>eng := st\<lparr>voices := (voices st)[vi := v1]\<rparr>\<rparr>)
         else
           (let ph = phase v1
            in case read_sample (map_option (\<lambda>b. buffers st ! b) (buf c)) ph of
                 Inl e \<Rightarrow> Inl e
               | Inr sample \<Rightarrow>
                   (let fadeGain = fade_gain c v1 ph;
                        out = sample * level v1 * fadeGain;
                        oL = (outL ps)[i := outL ps ! i + out * gainL c];
                        oR = (outR ps)[i := outR ps ! i + out * gainR c]
                    in case record_write c v1 ph (input_sample inMono i) (buffers st) of
                         Inl e \<Rightarrow> Inl e
                       | Inr bufs \<Rightarrow>
                           (let v2 = advance c v1;
                                r = phase_report sampleRate (phasePolling st) vi v2
                            in Inr \<lparr> eng = st\<lparr> buffers := bufs,
                                                voices := (voices st)[vi := fst r],
                                                port := port st @ snd r \<rparr>,
                                     outL = oL, outR = oR \<rparr>))))"

text \<open>The body of the loop over the voices, for voice \<open>vi\<close>.\<close>

definition process_voice ::
  "real \<Rightarrow> real list option \<Rightarrow> nat \<Rightarrow> nat \<Rightarrow> pstate \<Rightarrow> error + pstate" where
  "process_voice sampleRate inMono blockSize vi ps =
     (let v = voices (eng ps) ! vi
      in if \<not> truthy (enabled v) then Inr ps
         else foldM (frame sampleRate inMono vi (voice_consts sampleRate (eng ps) v))
                [0..<blockSize] ps)"

text \<open>
  \<open>process\<close>: \<open>inMono\<close> is the first channel of the first input, when there is one,
  and \<open>blockSize\<close> the length of the output channels, which are zeroed first.
\<close>

definition process :: "real \<Rightarrow> real list option \<Rightarrow> nat \<Rightarrow> engine \<Rightarrow> error + pstate" where
  "process sampleRate inMono blockSize st =
     foldM (process_voice sampleRate inMono blockSize) [0..<NUM_VOICES]
       \<lparr> eng = st, outL = replicate blockSize 0, outR = replicate blockSize 0 \<rparr>"

section \<open>The control API (lib/softcut.js)\<close>

text \<open>
  \<open>workletNode\<close> is null until \<open>init\<close> has run; afterwards it is the node, modelled
  by the messages posted to its port, oldest first.
\<close>

record api =
  workletNode :: "msg list option"

definition send :: "msg \<Rightarrow> api \<Rightarrow> api" where
  "send m a =
     (case workletNode a of None \<Rightarrow> a | Some q \<Rightarrow> a\<lparr>workletNode := Some (q @ [m])\<rparr>)"

definition sendVoice :: "vcmd \<Rightarrow> int \<Rightarrow> real \<Rightarrow> api \<Rightarrow> api" where
  "sendVoice cmd v x a = send (Voice_msg cmd (v - 1) x) a"

text \<open>
  The methods of \<open>softcut\<close> that address a voice. An on/off argument is tested for
  truthiness by the source (\<open>state ? 1 : 0\<close>) and is a \<open>bool\<close> here.
\<close>

definition softcut_enable :: "int \<Rightarrow> bool \<Rightarrow> api \<Rightarrow> api" where
  "softcut_enable v state a = sendVoice Enable v (if state then 1 else 0) a"

definition softcut_buffer :: "int \<Rightarrow> real \<Rightarrow> api \<Rightarrow> api" where
  "softcut_buffer v b a = sendVoice Buffer v (b - 1) a"

definition softcut_play :: "int \<Rightarrow> bool \<Rightarrow> api \<Rightarrow> api" where
  "softcut_play v state a = sendVoice Play v (if state then 1 else 0) a"

definition softcut_rate :: "int \<Rightarrow> real \<Rightarrow> api \<Rightarrow> api" where
  "softcut_rate v r a = sendVoice Rate v r a"

definition softcut_level :: "int \<Rightarrow> real \<Rightarrow> api \<Rightarrow> api" where
  "softcut_level v amp a = sendVoice Level v amp a"

definition softcut_pan :: "int \<Rightarrow> real \<Rightarrow> api \<Rightarrow> api" where
  "softcut_pan v pos a = sendVoice Pan v pos a"

definition softcut_position :: "int \<Rightarrow> real \<Rightarrow> api \<Rightarrow> api" where
  "softcut_position v pos a = sendVoice Position v pos a"

definition softcut_loop :: "int \<Rightarrow> bool \<Rightarrow> api \<Rightarrow> api" where
  "softcut_loop v state a = sendVoice Loop v (if state then 1 else 0) a"

definition softcut_loop_start :: "int \<Rightarrow> real \<Rightarrow> api \<Rightarrow> api" where
  "softcut_loop_start v pos a = sendVoice Loop_start v pos a"

definition softcut_loop_end :: "int \<Rightarrow> real \<Rightarrow> api \<Rightarrow> api" where
  "softcut_loop_end v pos a = sendVoice Loop_end v pos a"

definition softcut_fade_time :: "int \<Rightarrow> real \<Rightarrow> api \<Rightarrow> api" where
  "softcut_fade_time v t a = sendVoice Fade_time v t a"

definition softcut_level_slew_time :: "int \<Rightarrow> real \<Rightarrow> api \<Rightarrow> api" where
  "softcut_level_slew_time v t a = sendVoice Level_slew_time v t a"

definition softcut_rec :: "int \<Rightarrow> bool \<Rightarrow> api \<Rightarrow> api" where
  "softcut_rec v state a = sendVoice Rec v (if state then 1 else 0) a"

definition softcut_rec_level :: "int \<Rightarrow> real \<Rightarrow> api \<Rightarrow> api" where
  "softcut_rec_level v amp a = sendVoice Rec_level v amp a"

definition softcut_pre_level :: "int \<Rightarrow> real \<Rightarrow> api \<Rightarrow> api" where
  "softcut_pre_level v amp a = sendVoice Pre_level v amp a"

definition softcut_phase_quant :: "int \<Rightarrow> real \<Rightarrow> api \<Rightarrow> api" where
  "softcut_phase_quant v quantum a = sendVoice Phase_quant v quantum a"

section \<open>The clock (lib/midi.js, third document)\<close>

text \<open>
  Time is a parameter: \<open>now\<close> is the value of \<open>_now()\<close> when a function is called,
  and a function reads it once. A promise of \<open>_accurateSleep\<close> that is pending on its
  timer is a \<open>sleeper\<close> of the state: \<open>task\<close> is the coroutine whose code awaits it (a
  label of the model; the source holds no such value), \<open>signal\<close> the abort signal its
  listener is registered on, named by the id of the coroutine whose \<open>run\<close> created the
  controller, or None for \<open>null\<close>.
\<close>

record sleeper =
  task :: nat
  signal :: "nat option"
  coarseMs :: real
  targetTime :: real

text \<open>
  \<open>coroutines\<close> are the keys of the map \<open>_coroutines\<close>; the entry of an id holds the
  AbortController made by the \<open>run\<close> that returned the id. \<open>aborted\<close> are the ids whose
  controller has aborted, \<open>rejected\<close> the tasks whose pending sleep was rejected with
  an AbortError, \<open>console\<close> the ids for which an error was logged.
\<close>

record clock =
  tempo :: real
  running :: bool
  refTime :: real
  refBeats :: real
  nextId :: nat
  coroutines :: "nat set"
  aborted :: "nat set"
  currentSignal :: "nat option"
  sleepers :: "sleeper list"
  rejected :: "nat list"
  console :: "nat list"

definition clock_init :: "real \<Rightarrow> clock" where
  "clock_init now =
     \<lparr> tempo = 120, running = False, refTime = now, refBeats = 0, nextId = 1,
       coroutines = {}, aborted = {}, currentSignal = None, sleepers = [],
       rejected = [], console = [] \<rparr>"

definition getBeats :: "real \<Rightarrow> clock \<Rightarrow> real" where
  "getBeats now c =
     (if \<not> running c then refBeats c
      else (now - refTime c) * (tempo c / 60) + refBeats c)"

text \<open>
  The promise \<open>_accurateSleep(seconds, signal)\<close> returns: rejected with the named
  error, resolved at once, resolved after spinning until the target time, or pending on a
  timer of \<open>coarseMs\<close> milliseconds followed by the spin until the target time.
\<close>

datatype outcome = Rejected string | Resolved | Spun real | Waiting real real

definition accurateSleep :: "real \<Rightarrow> real \<Rightarrow> nat option \<Rightarrow> clock \<Rightarrow> outcome" where
  "accurateSleep now seconds sig c =
     (if (case sig of None \<Rightarrow> False | Some k \<Rightarrow> k \<in> aborted c) then Rejected ''AbortError''
      else if seconds \<le> 0 then Resolved
      else
        (let target = now + seconds
         in if seconds \<le> 4 / 1000 then Spun target
            else Waiting (max 0 ((seconds - 3 / 1000) * 1000)) target))"

text \<open>Awaiting the promise: a pending one stays in the state with its abort listener.\<close>

definition await :: "nat \<Rightarrow> nat option \<Rightarrow> outcome \<Rightarrow> clock \<Rightarrow> outcome \<times> clock" where
  "await t sig out c =
     (case out of
        Waiting ms target \<Rightarrow>
          (out, c\<lparr>sleepers := sleepers c @
             [\<lparr>task = t, signal = sig, coarseMs = ms, targetTime = target\<rparr>]\<rparr>)
      | _ \<Rightarrow> (out, c))"

text \<open>
  \<open>clock.sleep\<close> and \<open>clock.sync\<close> up to their await, called by the code of coroutine
  \<open>t\<close>. With \<open>beat = 0\<close> and the clock running the source computes NaN, no comparison
  holds and nothing is awaited.
\<close>

definition sleep :: "nat \<Rightarrow> real \<Rightarrow> real \<Rightarrow> clock \<Rightarrow> outcome \<times> clock" where
  "sleep t now seconds c =
     (let sig = currentSignal c in await t sig (accurateSleep now seconds sig c) c)"

definition sync :: "nat \<Rightarrow> real \<Rightarrow> real \<Rightarrow> real \<Rightarrow> clock \<Rightarrow> outcome \<times> clock" where
  "sync t now beat offset c =
     (let sig = currentSignal c
      in if \<not> running c then
           (let sleepTime = beat * (60 / tempo c)
            in await t sig (accurateSleep now sleepTime sig c) c)
         else if beat = 0 then (Resolved, c)
         else
           (let currentBeats = getBeats now c;
                nextBeat0 = of_int \<lceil>(currentBeats - offset) / beat\<rceil> * beat + offset;
                nextBeat = (if nextBeat0 \<le> currentBeats + 1 / 10000 then nextBeat0 + beat
                            else nextBeat0);
                beatsToWait = nextBeat - currentBeats;
                secondsToWait = beatsToWait * (60 / tempo c)
            in if secondsToWait > 0 then await t sig (accurateSleep now secondsToWait sig c) c
               else (Resolved, c)))"

text \<open>The statement after the await of \<open>sleep\<close> and \<open>sync\<close>: \<open>_currentSignal = signal\<close>.\<close>

definition resume :: "nat option \<Rightarrow> clock \<Rightarrow> clock" where
  "resume sig c = c\<lparr>currentSignal := sig\<rparr>"

text \<open>
  \<open>clock.run(fn)\<close>. The async wrapper runs at once, up to its first await: it sets
  \<open>_currentSignal\<close> and calls \<open>fn\<close>, which runs up to its own first await; \<open>fn\<close> is here
  that part of the user's function, told its id. Then the entry is added to the map.
\<close>

definition run :: "(nat \<Rightarrow> clock \<Rightarrow> clock) \<Rightarrow> clock \<Rightarrow> nat \<times> clock" where
  "run fn c =
     (let cid = nextId c;
          c1 = c\<lparr>nextId := cid + 1\<rparr>;
          c2 = fn cid (c1\<lparr>currentSignal := Some cid\<rparr>)
      in (cid, c2\<lparr>coroutines := insert cid (coroutines c2)\<rparr>))"

text \<open>
  The end of the wrapper, when \<open>fn\<close> has returned (None) or thrown an error of the given
  name: the catch logs unless the name is AbortError, the finally removes the id.
\<close>

definition finish :: "nat \<Rightarrow> string option \<Rightarrow> clock \<Rightarrow> clock" where
  "finish cid err c =
     (let c1 = (case err of
                  None \<Rightarrow> c
                | Some name \<Rightarrow>
                    if name \<noteq> ''AbortError'' then c\<lparr>console := console c @ [cid]\<rparr> else c)
      in c1\<lparr>coroutines := coroutines c1 - {cid}\<rparr>)"

text \<open>
  \<open>abort()\<close> of the controller of \<open>cid\<close>: the signal becomes aborted and its listeners
  run once, each clearing its timer and rejecting its promise with an AbortError.
\<close>

definition abort :: "nat \<Rightarrow> clock \<Rightarrow> clock" where
  "abort cid c =
     (if cid \<in> aborted c then c
      else c\<lparr> aborted := insert cid (aborted c),
              sleepers := filter (\<lambda>s. signal s \<noteq> Some cid) (sleepers c),
              rejected := rejected c @ map task (filter (\<lambda>s. signal s = Some cid) (sleepers c)) \<rparr>)"

definition cancel :: "nat \<Rightarrow> clock \<Rightarrow> clock" where
  "cancel cid c =
     (if cid \<in> coroutines c then
        (let c1 = abort cid c in c1\<lparr>coroutines := coroutines c1 - {cid}\<rparr>)
      else c)"

section \<open>Notions used by the statements\<close>

text \<open>
  The time at which the promise of \<open>_accurateSleep\<close> resolves: the target time, at which
  the spin loop ends, when the promise is not settled at once. (The loop ends at the first
  reading of the clock that has reached the target; the model takes the target.)
\<close>

definition wake :: "outcome \<Rightarrow> real option" where
  "wake out = (case out of Spun target \<Rightarrow> Some target | Waiting ms target \<Rightarrow> Some target
               | _ \<Rightarrow> None)"




text \<open>
  The read of the specification (4.B, step 3), in its words: with \<open>i0 = floor p\<close> and
  \<open>f = p - i0\<close>, the sample is \<open>buf[i0] * (1 - f) + buf[i0 + 1] * f\<close> if \<open>0 \<le> i0\<close> and
  \<open>i0 + 1 < buffer_length\<close>, \<open>buf[i0]\<close> if only \<open>i0\<close> is in range, and 0 otherwise.
\<close>

definition spec_sample :: "real list \<Rightarrow> real \<Rightarrow> real" where
  "spec_sample b p =
     (let i0 = \<lfloor>p\<rfloor>; f = p - of_int i0
      in if 0 \<le> i0 \<and> i0 + 1 < int (length b) then b ! nat i0 * (1 - f) + b ! nat (i0 + 1) * f
         else if 0 \<le> i0 \<and> i0 < int (length b) then b ! nat i0
         else 0)"

section \<open>Loops over arrays\<close>

lemma fold_update_length:
  "length (fold (\<lambda>i vs. vs[i := f i (vs ! i)]) [0..<n] xs) = length xs"
  by (induction n) simp_all

lemma fold_update_nth_gen:
  "n \<le> length xs \<Longrightarrow>
   fold (\<lambda>i vs. vs[i := f i (vs ! i)]) [0..<n] xs ! k = (if k < n then f k (xs ! k) else xs ! k)"
proof (induction n arbitrary: k)
  case 0
  then show ?case by simp
next
  case (Suc n)
  from Suc.prems have "n \<le> length xs" by simp
  from Suc.IH [OF this] show ?case
    using Suc.prems by (simp add: fold_update_length nth_list_update)
qed

lemma ta_set_length: "length (ta_set xs i x) = length xs"
  by (simp add: ta_set_def)

lemma ta_set_nth:
  "j < length xs \<Longrightarrow> ta_set xs i x ! j = (if i = int j then x else xs ! j)"
  by (auto simp: ta_set_def nth_list_update)

lemma constructor_shape: "engine_shape constructor"
  by (simp add: engine_shape_def constructor_def NUM_BUFFERS_def NUM_VOICES_def)

section \<open>Reset\<close>

lemma reset_voice_eq:
  "reset_voice i v =
     \<lparr> enabled = 0, playing = 0, buffer = (if i < 3 then 0 else 1), rate = 1, level = 1,
       pan = 0, position = 0, phase = 0, loop = 0, loop_start = 0,
       loop_end = 350, fade_time = 1 / 100, level_slew_time = 0,
       level_target = 1, rec = 0, rec_level = 1, pre_level = 0, phase_quant = 0,
       phase_accum = 0 \<rparr>"
  by (simp add: reset_voice_def BUF_DURATION_def)

text \<open>
  C1, as amended. After \<open>reset\<close> both buffers are zero throughout and every voice has
  \<open>buffer\<close> 0 for the voices 0 to 2 and 1 for the voices 3 to 5, \<open>rate\<close>, \<open>level\<close> and
  \<open>level_target\<close> 1, \<open>pan\<close> 0, \<open>loop\<close> 0, \<open>loop_start\<close> 0, \<open>loop_end\<close> 350,
  \<open>fade_time\<close> 0.01, \<open>rec_level\<close> 1, and every other field 0.
\<close>

theorem reset_defaults:
  assumes "engine_shape st"
  shows "\<exists>st'. handleMessage sampleRate Reset st = Inr st'
     \<and> buffers st' = [replicate BUF_FRAMES 0, replicate BUF_FRAMES 0]
     \<and> length (voices st') = NUM_VOICES
     \<and> (\<forall>i < NUM_VOICES. voices st' ! i =
          \<lparr> enabled = 0, playing = 0, buffer = (if i < 3 then 0 else 1), rate = 1, level = 1,
            pan = 0, position = 0, phase = 0, loop = 0, loop_start = 0,
            loop_end = 350, fade_time = 1 / 100, level_slew_time = 0,
            level_target = 1, rec = 0, rec_level = 1, pre_level = 0, phase_quant = 0,
            phase_accum = 0 \<rparr>)"
proof -
  define bs where "bs = ((buffers st)[0 := fill0 (buffers st ! 0)])
              [1 := fill0 (((buffers st)[0 := fill0 (buffers st ! 0)]) ! 1)]"
  define vs where
    "vs = fold (\<lambda>i vs. vs[i := reset_voice i (vs ! i)]) [0..<NUM_VOICES] (voices st)"
  from assms have len: "length (buffers st) = 2" "length (buffers st ! 0) = BUF_FRAMES"
      "length (buffers st ! 1) = BUF_FRAMES" "length (voices st) = NUM_VOICES"
    by (simp_all add: engine_shape_def NUM_BUFFERS_def)
  from len(1) obtain b0 b1 where b: "buffers st = [b0, b1]"
    by (cases "buffers st"; cases "tl (buffers st)"; cases "tl (tl (buffers st))") auto
  with len have "length b0 = BUF_FRAMES" "length b1 = BUF_FRAMES" by simp_all
  then have 1: "bs = [replicate BUF_FRAMES 0, replicate BUF_FRAMES 0]"
    by (simp add: bs_def b fill0_def)
  have 2: "length vs = NUM_VOICES"
    by (simp add: vs_def fold_update_length len(4))
  have 3: "vs ! i = reset_voice i (voices st ! i)" if "i < NUM_VOICES" for i
    using that len(4) by (simp add: vs_def fold_update_nth_gen)
  have "handleMessage sampleRate Reset st = Inr (st\<lparr>buffers := bs, voices := vs\<rparr>)"
    by (simp add: bs_def vs_def)
  with 1 2 3 show ?thesis
    by (simp add: reset_voice_eq)
qed

theorem reset_defaults_witness:
  "\<exists>st'. handleMessage 48000 Reset constructor = Inr st'
     \<and> buffers st' = [replicate BUF_FRAMES 0, replicate BUF_FRAMES 0]
     \<and> rec_level (voices st' ! 4) = 1 \<and> buffer (voices st' ! 4) = 1"
  using reset_defaults [OF constructor_shape, of 48000] by (auto simp: NUM_VOICES_def)

text \<open>
  The claim lists \<open>rec_level\<close> among the fields that are 0 after \<open>reset\<close>; the source
  assigns 1.0, as the constructor does.
\<close>

theorem reset_rec_level_counterexample:
  "rec_level (voices (projr (handleMessage 48000 Reset constructor)) ! 0) = 1"
  by (simp add: constructor_def NUM_VOICES_def upt_rec reset_voice_def)

section \<open>Clearing a region\<close>

declare clear_loop.simps [simp del]

lemma clear_loop_length: "length (clear_loop i e xs) = length xs"
proof (induction i e xs rule: clear_loop.induct)
  case (1 i e xs)
  then show ?case
    by (subst clear_loop.simps) (simp add: ta_set_length)
qed

lemma clear_loop_nth:
  "j < length xs \<Longrightarrow>
   clear_loop i e xs ! j =
     (if i \<le> int j \<and> int j < e \<and> int j < int BUF_FRAMES then 0 else xs ! j)"
proof (induction i e xs rule: clear_loop.induct)
  case (1 i e xs)
  show ?case
  proof (cases "i < e \<and> i < int BUF_FRAMES")
    case True
    then have "clear_loop i e xs ! j = clear_loop (i + 1) e (ta_set xs i 0) ! j"
      by (subst clear_loop.simps) simp
    also have "\<dots> = (if i + 1 \<le> int j \<and> int j < e \<and> int j < int BUF_FRAMES then 0
        else ta_set xs i 0 ! j)"
      using "1.IH" [OF True] "1.prems" by (simp add: ta_set_length)
    finally show ?thesis
      using True "1.prems" by (auto simp: ta_set_nth)
  next
    case False
    have "clear_loop i e xs = xs"
      using False by (subst clear_loop.simps) auto
    with False show ?thesis by auto
  qed
qed

text \<open>
  C9. \<open>buffer_clear_region(start, dur)\<close> zeroes, in both buffers, the samples whose index
  is in \<open>[floor(start * sampleRate), floor((start + dur) * sampleRate))\<close> and inside the
  buffer, and leaves every other sample of both buffers, and the voices, as they were.
\<close>

theorem clear_region_effect:
  assumes "engine_shape st"
  shows "\<exists>st'. handleMessage sampleRate (Buffer_clear_region start dur) st = Inr st'
     \<and> length (buffers st') = NUM_BUFFERS \<and> voices st' = voices st
     \<and> (\<forall>b<NUM_BUFFERS. length (buffers st' ! b) = BUF_FRAMES
          \<and> (\<forall>j<BUF_FRAMES. buffers st' ! b ! j =
                (if \<lfloor>start * sampleRate\<rfloor> \<le> int j \<and> int j < \<lfloor>(start + dur) * sampleRate\<rfloor>
                 then 0 else buffers st ! b ! j)))"
proof -
  define s where "s = \<lfloor>start * sampleRate\<rfloor>"
  define e where "e = \<lfloor>(start + dur) * sampleRate\<rfloor>"
  define bs where
    "bs = fold (\<lambda>b bs. bs[b := clear_loop s e (bs ! b)]) [0..<NUM_BUFFERS] (buffers st)"
  from assms have len: "length (buffers st) = NUM_BUFFERS"
      "length (buffers st ! 0) = BUF_FRAMES" "length (buffers st ! 1) = BUF_FRAMES"
    by (simp_all add: engine_shape_def)
  have each: "length (buffers st ! b) = BUF_FRAMES" if "b < NUM_BUFFERS" for b
  proof -
    from that have "b = 0 \<or> b = 1" by (auto simp: NUM_BUFFERS_def)
    with len show ?thesis by auto
  qed
  have 1: "length bs = NUM_BUFFERS"
    by (simp add: bs_def fold_update_length [where f = "\<lambda>b. clear_loop s e"] len)
  have 2: "bs ! b = clear_loop s e (buffers st ! b)" if "b < NUM_BUFFERS" for b
    using that len(1) by (simp add: bs_def fold_update_nth_gen [where f = "\<lambda>b. clear_loop s e"])
  have 3: "handleMessage sampleRate (Buffer_clear_region start dur) st
      = Inr (st\<lparr>buffers := bs\<rparr>)"
    by (simp add: bs_def s_def e_def)
  have 4: "bs ! b ! j = (if s \<le> int j \<and> int j < e then 0 else buffers st ! b ! j)"
    if "b < NUM_BUFFERS" "j < BUF_FRAMES" for b j
    using that each [OF that(1)] by (simp add: 2 clear_loop_nth)
  have 5: "length (bs ! b) = BUF_FRAMES" if "b < NUM_BUFFERS" for b
    using that by (simp add: 2 clear_loop_length each)
  have "length (buffers (st\<lparr>buffers := bs\<rparr>)) = NUM_BUFFERS
     \<and> voices (st\<lparr>buffers := bs\<rparr>) = voices st
     \<and> (\<forall>b<NUM_BUFFERS. length (buffers (st\<lparr>buffers := bs\<rparr>) ! b) = BUF_FRAMES
          \<and> (\<forall>j<BUF_FRAMES. buffers (st\<lparr>buffers := bs\<rparr>) ! b ! j =
                (if s \<le> int j \<and> int j < e then 0 else buffers st ! b ! j)))"
    using 1 4 5 by simp
  with 3 show ?thesis
    unfolding s_def e_def by blast
qed

lemma loaded_shape:
  "engine_shape (constructor\<lparr>buffers := [replicate BUF_FRAMES 1, replicate BUF_FRAMES 2]\<rparr>)"
  by (simp add: engine_shape_def constructor_def NUM_BUFFERS_def NUM_VOICES_def)

theorem clear_region_effect_witness:
  "\<exists>st'. handleMessage 48000 (Buffer_clear_region (1 / 1000) (1 / 1000))
        (constructor\<lparr>buffers := [replicate BUF_FRAMES 1, replicate BUF_FRAMES 2]\<rparr>) = Inr st'
     \<and> buffers st' ! 0 ! 47 = 1 \<and> buffers st' ! 0 ! 48 = 0 \<and> buffers st' ! 1 ! 95 = 0
     \<and> buffers st' ! 1 ! 96 = 2"
proof -
  have f: "\<lfloor>1 / 1000 * (48000::real)\<rfloor> = 48" "\<lfloor>(1 / 1000 + 1 / 1000) * (48000::real)\<rfloor> = 96"
    by simp_all
  from clear_region_effect [OF loaded_shape, of 48000 "1 / 1000" "1 / 1000"]
  obtain st' where h: "handleMessage 48000 (Buffer_clear_region (1 / 1000) (1 / 1000))
        (constructor\<lparr>buffers := [replicate BUF_FRAMES 1, replicate BUF_FRAMES 2]\<rparr>) = Inr st'"
    and v: "\<forall>b<NUM_BUFFERS. length (buffers st' ! b) = BUF_FRAMES
          \<and> (\<forall>j<BUF_FRAMES. buffers st' ! b ! j =
                (if 48 \<le> int j \<and> int j < 96
                 then 0
                 else buffers (constructor\<lparr>buffers :=
                        [replicate BUF_FRAMES 1, replicate BUF_FRAMES 2]\<rparr>) ! b ! j))"
    unfolding f by blast
  have "(0::nat) < NUM_BUFFERS" "(1::nat) < NUM_BUFFERS" "(47::nat) < BUF_FRAMES"
    "(48::nat) < BUF_FRAMES" "(95::nat) < BUF_FRAMES" "(96::nat) < BUF_FRAMES"
    by (simp_all add: NUM_BUFFERS_def BUF_FRAMES_def SAMPLE_RATE_def BUF_DURATION_def)
  with v have "buffers st' ! 0 ! 47 = 1 \<and> buffers st' ! 0 ! 48 = 0 \<and> buffers st' ! 1 ! 95 = 0
     \<and> buffers st' ! 1 ! 96 = 2"
    by simp
  with h show ?thesis by blast
qed

section \<open>Frames\<close>



lemma level_slew_fields:
  "enabled (level_slew k v) = enabled v" "playing (level_slew k v) = playing v"
  "buffer (level_slew k v) = buffer v" "rate (level_slew k v) = rate v"
  "pan (level_slew k v) = pan v" "position (level_slew k v) = position v"
  "phase (level_slew k v) = phase v" "loop (level_slew k v) = loop v"
  "loop_start (level_slew k v) = loop_start v" "loop_end (level_slew k v) = loop_end v"
  "fade_time (level_slew k v) = fade_time v"
  "level_slew_time (level_slew k v) = level_slew_time v"
  "level_target (level_slew k v) = level_target v" "rec (level_slew k v) = rec v"
  "rec_level (level_slew k v) = rec_level v" "pre_level (level_slew k v) = pre_level v"
  "phase_quant (level_slew k v) = phase_quant v" "phase_accum (level_slew k v) = phase_accum v"
  by (simp_all add: level_slew_def Let_def)

lemma advance_fields:
  "enabled (advance c v) = enabled v"
  "buffer (advance c v) = buffer v" "rate (advance c v) = rate v"
  "level (advance c v) = level v"
  "pan (advance c v) = pan v" "position (advance c v) = position v"
  "loop (advance c v) = loop v"
  "loop_start (advance c v) = loop_start v" "loop_end (advance c v) = loop_end v"
  "fade_time (advance c v) = fade_time v"
  "level_slew_time (advance c v) = level_slew_time v"
  "level_target (advance c v) = level_target v" "rec (advance c v) = rec v"
  "rec_level (advance c v) = rec_level v" "pre_level (advance c v) = pre_level v"
  "phase_quant (advance c v) = phase_quant v" "phase_accum (advance c v) = phase_accum v"
  by (simp_all add: advance_def Let_def)

lemma phase_report_fields:
  "enabled (fst (phase_report sr p vi v)) = enabled v"
  "playing (fst (phase_report sr p vi v)) = playing v"
  "buffer (fst (phase_report sr p vi v)) = buffer v"
  "rate (fst (phase_report sr p vi v)) = rate v"
  "level (fst (phase_report sr p vi v)) = level v"
  "pan (fst (phase_report sr p vi v)) = pan v"
  "position (fst (phase_report sr p vi v)) = position v"
  "phase (fst (phase_report sr p vi v)) = phase v"
  "loop (fst (phase_report sr p vi v)) = loop v"
  "loop_start (fst (phase_report sr p vi v)) = loop_start v"
  "loop_end (fst (phase_report sr p vi v)) = loop_end v"
  "fade_time (fst (phase_report sr p vi v)) = fade_time v"
  "level_slew_time (fst (phase_report sr p vi v)) = level_slew_time v"
  "level_target (fst (phase_report sr p vi v)) = level_target v"
  "rec (fst (phase_report sr p vi v)) = rec v"
  "rec_level (fst (phase_report sr p vi v)) = rec_level v"
  "pre_level (fst (phase_report sr p vi v)) = pre_level v"
  "phase_quant (fst (phase_report sr p vi v)) = phase_quant v"
  by (simp_all add: phase_report_def Let_def)

lemma read_sample_Some: "read_sample (Some xs) ph = Inr (projr (read_sample (Some xs) ph))"
  by (simp add: read_sample_def Let_def)

lemma record_write_Some:
  "buf c = Some b \<Longrightarrow>
   record_write c v ph x bufs = Inr (projr (record_write c v ph x bufs))"
  by (simp add: record_write_def Let_def)




lemma frame_play:
  assumes "truthy (playing (voices (eng ps) ! vi))" and "buf c = Some b"
  shows "frame sr inMono vi c i ps =
     (let st = eng ps;
          v1 = level_slew (slewRate c) (voices st ! vi);
          sample = projr (read_sample (Some (buffers st ! b)) (phase v1));
          out = sample * level v1 * fade_gain c v1 (phase v1);
          r = phase_report sr (phasePolling st) vi (advance c v1)
      in Inr \<lparr> eng = st\<lparr> buffers := projr (record_write c v1 (phase v1)
                                     (input_sample inMono i) (buffers st)),
                          voices := (voices st)[vi := fst r],
                          port := port st @ snd r \<rparr>,
               outL = (outL ps)[i := outL ps ! i + out * gainL c],
               outR = (outR ps)[i := outR ps ! i + out * gainR c] \<rparr>)"
  using assms
  by (simp add: frame_def Let_def level_slew_fields read_sample_def record_write_def)


lemma frame_play_facts:
  assumes "truthy (playing (voices (eng ps) ! vi))" and "buf c = Some b"
  obtains ps' where "frame sr inMono vi c i ps = Inr ps'"
    and "voices (eng ps') = (voices (eng ps))[vi := fst (phase_report sr (phasePolling (eng ps)) vi
           (advance c (level_slew (slewRate c) (voices (eng ps) ! vi))))]"
    and "port (eng ps') = port (eng ps) @ snd (phase_report sr (phasePolling (eng ps)) vi
           (advance c (level_slew (slewRate c) (voices (eng ps) ! vi))))"
    and "buffers (eng ps') = projr (record_write c (level_slew (slewRate c) (voices (eng ps) ! vi))
           (phase (voices (eng ps) ! vi)) (input_sample inMono i) (buffers (eng ps)))"
    and "phasePolling (eng ps') = phasePolling (eng ps)"
    and "outL ps' = (outL ps)[i := outL ps ! i
           + projr (read_sample (Some (buffers (eng ps) ! b)) (phase (voices (eng ps) ! vi)))
             * level (level_slew (slewRate c) (voices (eng ps) ! vi))
             * fade_gain c (level_slew (slewRate c) (voices (eng ps) ! vi))
                 (phase (voices (eng ps) ! vi))
             * gainL c]"
    and "outR ps' = (outR ps)[i := outR ps ! i
           + projr (read_sample (Some (buffers (eng ps) ! b)) (phase (voices (eng ps) ! vi)))
             * level (level_slew (slewRate c) (voices (eng ps) ! vi))
             * fade_gain c (level_slew (slewRate c) (voices (eng ps) ! vi))
                 (phase (voices (eng ps) ! vi))
             * gainR c]"
proof -
  note f = frame_play [OF assms, of sr inMono i, unfolded Let_def]
  show ?thesis
    by (rule that [OF f]) (simp_all add: level_slew_fields)
qed

lemma index_of_buffer:
  assumes "buffer v = 0 \<or> buffer v = 1" and "length bs = NUM_BUFFERS"
  shows "index_of (buffer v) (length bs) = Some (nat \<lfloor>buffer v\<rfloor>)"
    and "nat \<lfloor>buffer v\<rfloor> < NUM_BUFFERS"
  using assms by (auto simp: index_of_def NUM_BUFFERS_def)

lemma buf_voice_consts:
  assumes "buffer v = 0 \<or> buffer v = 1" and "engine_shape st"
  shows "buf (voice_consts sr st v) = Some (nat \<lfloor>buffer v\<rfloor>)"
  using index_of_buffer(1) [OF assms(1), of "buffers st"] assms(2)
  by (simp add: voice_consts_def engine_shape_def)

lemma voice_consts_fields:
  "loopStartSamp (voice_consts sr st v) = loop_start v * sr"
  "loopEndSamp (voice_consts sr st v) = loop_end v * sr"
  "loopLen (voice_consts sr st v) = loop_end v * sr - loop_start v * sr"
  "fadeSamples (voice_consts sr st v) = fade_time v * sr"
  by (simp_all add: voice_consts_def)

text \<open>
  C10. A playing voice whose loop is on but whose loop length in samples is not positive
  is not wrapped: a frame advances its phase by \<open>rate\<close>, and sets \<open>playing\<close> to 0 when
  the new phase has reached \<open>BUF_FRAMES\<close> or is below 0, as for a voice that does not loop.
\<close>

theorem nonpositive_loop_is_one_shot:
  assumes "engine_shape (eng ps)" and "vi < NUM_VOICES" and "v = voices (eng ps) ! vi"
    and "buffer v = 0 \<or> buffer v = 1"
    and "truthy (playing v)" and "truthy (loop v)"
    and "loop_end v * sampleRate \<le> loop_start v * sampleRate"
  shows "\<exists>ps'. frame sampleRate inMono vi (voice_consts sampleRate (eng ps) v) i ps = Inr ps'
     \<and> phase (voices (eng ps') ! vi) = phase v + rate v
     \<and> playing (voices (eng ps') ! vi) =
         (if phase v + rate v \<ge> real BUF_FRAMES \<or> phase v + rate v < 0 then 0 else playing v)"
proof -
  let ?c = "voice_consts sampleRate (eng ps) v"
  have b: "buf ?c = Some (nat \<lfloor>buffer v\<rfloor>)"
    by (rule buf_voice_consts [OF assms(4,1)])
  have len: "vi < length (voices (eng ps))"
    using assms(1,2) by (simp add: engine_shape_def)
  have n: "\<not> loopLen ?c > 0"
    using assms(7) by (simp add: voice_consts_fields)
  have a: "phase (advance ?c w) = phase w + rate w"
    "playing (advance ?c w) =
       (if phase w + rate w \<ge> real BUF_FRAMES \<or> phase w + rate w < 0 then 0 else playing w)"
    for w
    using n by (simp_all add: advance_def Let_def)
  from assms(5) have "truthy (playing (voices (eng ps) ! vi))"
    by (simp add: assms(3))
  from frame_play_facts [OF this b, of sampleRate inMono i]
  obtain ps' where f: "frame sampleRate inMono vi ?c i ps = Inr ps'"
    and vs: "voices (eng ps') = (voices (eng ps))[vi := fst (phase_report sampleRate
           (phasePolling (eng ps)) vi (advance ?c (level_slew (slewRate ?c) v)))]"
    unfolding assms(3) [symmetric] by blast
  have "phase (voices (eng ps') ! vi) = phase v + rate v"
    using len by (simp add: vs phase_report_fields a level_slew_fields)
  moreover have "playing (voices (eng ps') ! vi) =
         (if phase v + rate v \<ge> real BUF_FRAMES \<or> phase v + rate v < 0 then 0 else playing v)"
    using len by (simp add: vs phase_report_fields a level_slew_fields)
  ultimately show ?thesis using f by blast
qed

text \<open>
  C4, as amended. In a frame of a playing voice, with phase polling on and a positive
  \<open>phase_quant\<close>, the accumulator grows by \<open>|rate|\<close>; if it has then reached the quantum
  \<open>phase_quant * sampleRate\<close>, the quantum is subtracted once and one phase message with
  \<open>phase / sampleRate\<close> is posted, otherwise none is. Afterwards the accumulator is below
  the quantum provided it was below twice the quantum after the addition.
\<close>

theorem phase_report_once:
  assumes "engine_shape (eng ps)" and "vi < NUM_VOICES" and "v = voices (eng ps) ! vi"
    and "buffer v = 0 \<or> buffer v = 1"
    and "truthy (playing v)" and "phasePolling (eng ps)" and "phase_quant v > 0"
  shows "\<exists>ps'. frame sampleRate inMono vi (voice_consts sampleRate (eng ps) v) i ps = Inr ps'
     \<and> (phase_accum v + \<bar>rate v\<bar> \<ge> phase_quant v * sampleRate \<longrightarrow>
          phase_accum (voices (eng ps') ! vi)
            = phase_accum v + \<bar>rate v\<bar> - phase_quant v * sampleRate
          \<and> port (eng ps') = port (eng ps)
               @ [Phase_event vi (phase (voices (eng ps') ! vi) / sampleRate)])
     \<and> (phase_accum v + \<bar>rate v\<bar> < phase_quant v * sampleRate \<longrightarrow>
          phase_accum (voices (eng ps') ! vi) = phase_accum v + \<bar>rate v\<bar>
          \<and> port (eng ps') = port (eng ps))
     \<and> (phase_accum v + \<bar>rate v\<bar> < 2 * (phase_quant v * sampleRate) \<longrightarrow>
          phase_accum (voices (eng ps') ! vi) < phase_quant v * sampleRate)"
proof -
  let ?c = "voice_consts sampleRate (eng ps) v"
  let ?w = "advance ?c (level_slew (slewRate ?c) v)"
  have b: "buf ?c = Some (nat \<lfloor>buffer v\<rfloor>)"
    by (rule buf_voice_consts [OF assms(4,1)])
  have len: "vi < length (voices (eng ps))"
    using assms(1,2) by (simp add: engine_shape_def)
  have w: "phase_quant ?w = phase_quant v" "phase_accum ?w = phase_accum v" "rate ?w = rate v"
    by (simp_all add: advance_fields level_slew_fields)
  have r: "phase_report sampleRate True vi ?w =
     (if phase_accum v + \<bar>rate v\<bar> \<ge> phase_quant v * sampleRate
      then (?w\<lparr>phase_accum := phase_accum v + \<bar>rate v\<bar> - phase_quant v * sampleRate\<rparr>,
            [Phase_event vi (phase ?w / sampleRate)])
      else (?w\<lparr>phase_accum := phase_accum v + \<bar>rate v\<bar>\<rparr>, []))"
    using assms(7) by (simp add: phase_report_def Let_def w)
  from assms(5) have "truthy (playing (voices (eng ps) ! vi))"
    by (simp add: assms(3))
  from frame_play_facts [OF this b, of sampleRate inMono i]
  obtain ps' where f: "frame sampleRate inMono vi ?c i ps = Inr ps'"
    and vs: "voices (eng ps') = (voices (eng ps))[vi := fst (phase_report sampleRate
           (phasePolling (eng ps)) vi ?w)]"
    and po: "port (eng ps') = port (eng ps) @ snd (phase_report sampleRate
           (phasePolling (eng ps)) vi ?w)"
    unfolding assms(3) [symmetric] by blast
  have v': "voices (eng ps') ! vi = fst (phase_report sampleRate True vi ?w)"
    using len assms(6) by (simp add: vs)
  have po': "port (eng ps') = port (eng ps) @ snd (phase_report sampleRate True vi ?w)"
    using assms(6) by (simp add: po)
  have 1: "phase_accum v + \<bar>rate v\<bar> \<ge> phase_quant v * sampleRate \<longrightarrow>
          phase_accum (voices (eng ps') ! vi)
            = phase_accum v + \<bar>rate v\<bar> - phase_quant v * sampleRate
          \<and> port (eng ps') = port (eng ps)
               @ [Phase_event vi (phase (voices (eng ps') ! vi) / sampleRate)]"
    by (simp add: v' po' r)
  have 2: "phase_accum v + \<bar>rate v\<bar> < phase_quant v * sampleRate \<longrightarrow>
          phase_accum (voices (eng ps') ! vi) = phase_accum v + \<bar>rate v\<bar>
          \<and> port (eng ps') = port (eng ps)"
    by (simp add: v' po' r)
  have 3: "phase_accum v + \<bar>rate v\<bar> < 2 * (phase_quant v * sampleRate) \<longrightarrow>
          phase_accum (voices (eng ps') ! vi) < phase_quant v * sampleRate"
    by (auto simp: v' r algebra_simps)
  from f 1 2 3 show ?thesis by blast
qed

text \<open>
  C5. In a frame of a playing voice the sample read is the interpolation of the
  specification, and the frame adds \<open>sample * level * fadeGain * gain\<close> to each output
  channel; the read does not fail, whatever the phase.
\<close>

theorem interpolated_read:
  assumes "engine_shape (eng ps)" and "vi < NUM_VOICES" and "v = voices (eng ps) ! vi"
    and "buffer v = 0 \<or> buffer v = 1" and "truthy (playing v)"
    and "i < length (outL ps)" and "i < length (outR ps)"
    and "c = voice_consts sampleRate (eng ps) v"
    and "xs = buffers (eng ps) ! nat \<lfloor>buffer v\<rfloor>"
    and "v1 = level_slew (slewRate c) v"
  shows "\<exists>ps'. frame sampleRate inMono vi c i ps = Inr ps'
     \<and> length xs = BUF_FRAMES
     \<and> read_sample (Some xs) (phase v) = Inr (spec_sample xs (phase v))
     \<and> outL ps' ! i = outL ps ! i
         + spec_sample xs (phase v) * level v1 * fade_gain c v1 (phase v) * gainL c
     \<and> outR ps' ! i = outR ps ! i
         + spec_sample xs (phase v) * level v1 * fade_gain c v1 (phase v) * gainR c"
proof -
  have b: "buf c = Some (nat \<lfloor>buffer v\<rfloor>)"
    unfolding assms(8) by (rule buf_voice_consts [OF assms(4,1)])
  have l: "length xs = BUF_FRAMES"
    using assms(1,4) by (auto simp: assms(9) engine_shape_def)
  have s: "read_sample (Some xs) p = Inr (spec_sample xs p)" for p
    by (simp add: read_sample_def spec_sample_def Let_def l)
  from assms(5) have "truthy (playing (voices (eng ps) ! vi))"
    by (simp add: assms(3))
  from frame_play_facts [OF this b, of sampleRate inMono i]
  obtain ps' where f: "frame sampleRate inMono vi c i ps = Inr ps'"
    and oL: "outL ps' = (outL ps)[i := outL ps ! i
           + projr (read_sample (Some xs) (phase v)) * level v1 * fade_gain c v1 (phase v)
             * gainL c]"
    and oR: "outR ps' = (outR ps)[i := outR ps ! i
           + projr (read_sample (Some xs) (phase v)) * level v1 * fade_gain c v1 (phase v)
             * gainR c]"
    unfolding assms(3) [symmetric] assms(9) [symmetric] assms(10) [symmetric] by blast
  have "outL ps' ! i = outL ps ! i
         + spec_sample xs (phase v) * level v1 * fade_gain c v1 (phase v) * gainL c"
    using assms(6) by (simp add: oL s)
  moreover have "outR ps' ! i = outR ps ! i
         + spec_sample xs (phase v) * level v1 * fade_gain c v1 (phase v) * gainR c"
    using assms(7) by (simp add: oR s)
  ultimately show ?thesis using f l s by blast
qed

section \<open>Recording\<close>








section \<open>Loop closure\<close>






section \<open>Concrete runs\<close>

lemma voices_constructor:
  "voices constructor =
     [new_voice 0, new_voice 1, new_voice 2, new_voice 3, new_voice 4, new_voice 5]"
  by (simp add: constructor_def NUM_VOICES_def upt_rec eval_nat_numeral)

lemma buffers_constructor:
  "buffers constructor = [replicate BUF_FRAMES 0, replicate BUF_FRAMES 0]"
  by (simp add: constructor_def)

lemma port_constructor: "port constructor = []"
  by (simp add: constructor_def)

lemma buffer_new_voice: "buffer (new_voice i) = 0 \<or> buffer (new_voice i) = 1"
  by (simp add: new_voice_def)

lemma BUF_FRAMES_val: "BUF_FRAMES = 16800000"
  by (simp add: BUF_FRAMES_def SAMPLE_RATE_def BUF_DURATION_def)

theorem nonpositive_loop_is_one_shot_witness:
  "\<exists>ps'. frame 48000 None 0
       (voice_consts 48000 (constructor\<lparr>voices := (voices constructor)
            [0 := (new_voice 0)\<lparr>playing := 1, loop := 1, loop_end := 0, rate := -2\<rparr>]\<rparr>)
          ((new_voice 0)\<lparr>playing := 1, loop := 1, loop_end := 0, rate := -2\<rparr>)) 0
       \<lparr>eng = constructor\<lparr>voices := (voices constructor)
            [0 := (new_voice 0)\<lparr>playing := 1, loop := 1, loop_end := 0, rate := -2\<rparr>]\<rparr>,
        outL = [0], outR = [0]\<rparr> = Inr ps'
     \<and> phase (voices (eng ps') ! 0) = -2 \<and> playing (voices (eng ps') ! 0) = 0"
  using nonpositive_loop_is_one_shot [of
      "\<lparr>eng = constructor\<lparr>voices := (voices constructor)
            [0 := (new_voice 0)\<lparr>playing := 1, loop := 1, loop_end := 0, rate := -2\<rparr>]\<rparr>,
        outL = [0], outR = [0]\<rparr>" 0
      "(new_voice 0)\<lparr>playing := 1, loop := 1, loop_end := 0, rate := -2\<rparr>" 48000 None 0]
  by (simp add: engine_shape_def voices_constructor buffers_constructor NUM_VOICES_def
      NUM_BUFFERS_def truthy_def new_voice_def BUF_FRAMES_val)




theorem phase_report_once_witness:
  "\<exists>ps'. frame 48000 None 0
       (voice_consts 48000 (constructor\<lparr>phasePolling := True, voices := (voices constructor)
            [0 := (new_voice 0)\<lparr>playing := 1, phase_quant := 1 / 100,
                    phase_accum := 959 / 2\<rparr>]\<rparr>)
          ((new_voice 0)\<lparr>playing := 1, phase_quant := 1 / 100, phase_accum := 959 / 2\<rparr>)) 0
       \<lparr>eng = constructor\<lparr>phasePolling := True, voices := (voices constructor)
            [0 := (new_voice 0)\<lparr>playing := 1, phase_quant := 1 / 100,
                    phase_accum := 959 / 2\<rparr>]\<rparr>,
        outL = [0], outR = [0]\<rparr> = Inr ps'
     \<and> phase_accum (voices (eng ps') ! 0) = 1 / 2
     \<and> port (eng ps') = [Phase_event 0 (phase (voices (eng ps') ! 0) / 48000)]"
proof -
  let ?v = "(new_voice 0)\<lparr>playing := 1, phase_quant := 1 / 100, phase_accum := 959 / 2\<rparr>"
  let ?st = "constructor\<lparr>phasePolling := True, voices := (voices constructor)[0 := ?v]\<rparr>"
  let ?ps = "\<lparr>eng = ?st, outL = [0], outR = [0]\<rparr>"
  have 1: "engine_shape (eng ?ps)"
    by (simp add: engine_shape_def voices_constructor buffers_constructor NUM_VOICES_def
        NUM_BUFFERS_def)
  have 3: "(0::nat) < NUM_VOICES" by (simp add: NUM_VOICES_def)
  have 4: "?v = voices (eng ?ps) ! 0" by (simp add: voices_constructor)
  have 5: "buffer ?v = 0 \<or> buffer ?v = 1" "truthy (playing ?v)" "phasePolling (eng ?ps)"
    "phase_quant ?v > 0"
    by (simp_all add: new_voice_def truthy_def)
  have 6: "phase_accum ?v + \<bar>rate ?v\<bar> \<ge> phase_quant ?v * 48000"
    "phase_accum ?v + \<bar>rate ?v\<bar> - phase_quant ?v * 48000 = 1 / 2"
    by (simp_all add: new_voice_def)
  from phase_report_once [OF 1 3 4 5, of 48000 None 0] 6(1) obtain ps' where
    "frame 48000 None 0 (voice_consts 48000 (eng ?ps) ?v) 0 ?ps = Inr ps'"
    "phase_accum (voices (eng ps') ! 0) = phase_accum ?v + \<bar>rate ?v\<bar> - phase_quant ?v * 48000"
    "port (eng ps') = port (eng ?ps) @ [Phase_event 0 (phase (voices (eng ps') ! 0) / 48000)]"
    by blast
  then have "frame 48000 None 0 (voice_consts 48000 ?st ?v) 0 ?ps = Inr ps'
     \<and> phase_accum (voices (eng ps') ! 0) = 1 / 2
     \<and> port (eng ps') = [Phase_event 0 (phase (voices (eng ps') ! 0) / 48000)]"
    using 6(2) by (simp add: port_constructor)
  then show ?thesis ..
qed

text \<open>
  The claim has the quantum subtracted while the accumulator has reached it. The source
  subtracts once: with a quantum of one sample and rate 3, one frame leaves 2 in the
  accumulator, which is not below the quantum, and posts one message.
\<close>

theorem phase_report_counterexample:
  "phase_accum (voices (eng (projr (process 48000 None 1
       (constructor\<lparr>phasePolling := True, voices := (voices constructor)
          [0 := (new_voice 0)\<lparr>enabled := 1, playing := 1, rate := 3,
                  phase_quant := 1 / 48000\<rparr>]\<rparr>)))) ! 0) = 2
   \<and> phase_quant (voices (eng (projr (process 48000 None 1
       (constructor\<lparr>phasePolling := True, voices := (voices constructor)
          [0 := (new_voice 0)\<lparr>enabled := 1, playing := 1, rate := 3,
                  phase_quant := 1 / 48000\<rparr>]\<rparr>)))) ! 0) * 48000 = 1
   \<and> port (eng (projr (process 48000 None 1
       (constructor\<lparr>phasePolling := True, voices := (voices constructor)
          [0 := (new_voice 0)\<lparr>enabled := 1, playing := 1, rate := 3,
                  phase_quant := 1 / 48000\<rparr>]\<rparr>)))) = [Phase_event 0 (1 / 16000)]"
proof -
  let ?v = "(new_voice 0)\<lparr>enabled := 1, playing := 1, rate := 3, phase_quant := 1 / 48000\<rparr>"
  let ?st = "constructor\<lparr>phasePolling := True, voices := (voices constructor)[0 := ?v]\<rparr>"
  let ?ps = "\<lparr>eng = ?st, outL = [0], outR = [0]\<rparr>"
  let ?c = "voice_consts 48000 ?st ?v"
  have pl: "truthy (playing (voices (eng ?ps) ! 0))"
    by (simp add: voices_constructor new_voice_def truthy_def)
  have bc: "buf ?c = Some 0"
    by (simp add: voice_consts_def index_of_def buffers_constructor new_voice_def)
  from frame_play_facts [OF pl bc, of 48000 None 0] obtain ps' where
    f: "frame 48000 None 0 ?c 0 ?ps = Inr ps'"
    and vs: "voices (eng ps') = (voices (eng ?ps))[0 := fst (phase_report 48000
           (phasePolling (eng ?ps)) 0
           (advance ?c (level_slew (slewRate ?c) (voices (eng ?ps) ! 0))))]"
    and po: "port (eng ps') = port (eng ?ps) @ snd (phase_report 48000
           (phasePolling (eng ?ps)) 0
           (advance ?c (level_slew (slewRate ?c) (voices (eng ?ps) ! 0))))"
    by blast
  have v0: "voices (eng ?ps) ! 0 = ?v" by (simp add: voices_constructor)
  have a: "advance c (level_slew k ?v) = ?v\<lparr>phase := 3\<rparr>" for c k
    by (simp add: advance_def level_slew_def Let_def new_voice_def truthy_def BUF_FRAMES_val)
  have r: "phase_report 48000 True 0 (?v\<lparr>phase := 3\<rparr>)
      = (?v\<lparr>phase := 3, phase_accum := 2\<rparr>, [Phase_event 0 (1 / 16000)])"
    by (simp add: phase_report_def Let_def new_voice_def)
  have vs': "voices (eng ps') ! 0 = ?v\<lparr>phase := 3, phase_accum := 2\<rparr>"
    by (simp add: vs v0 a r voices_constructor)
  have po': "port (eng ps') = [Phase_event 0 (1 / 16000)]"
    by (simp add: po a r port_constructor voices_constructor)
  have others: "process_voice 48000 None n k ps' = Inr ps'" if "0 < k" "k < 6" for k n
    using that
    by (simp add: process_voice_def vs constructor_def NUM_VOICES_def new_voice_def truthy_def)
  have "process_voice 48000 None 1 0 ?ps = Inr ps'"
    using f by (simp add: process_voice_def voices_constructor truthy_def)
  then have "process 48000 None 1 ?st = Inr ps'"
    by (simp add: process_def NUM_VOICES_def upt_rec others)
  then show ?thesis
    by (simp add: vs' po')
qed


theorem interpolated_read_witness:
  "\<exists>ps'. frame 48000 None 0
       (voice_consts 48000
          (constructor\<lparr>buffers := [(replicate BUF_FRAMES 0)[0 := 1, 1 := 3],
                                   replicate BUF_FRAMES 0],
             voices := (voices constructor)
               [0 := (new_voice 0)\<lparr>playing := 1, pan := -1, phase := 1 / 2\<rparr>]\<rparr>)
          ((new_voice 0)\<lparr>playing := 1, pan := -1, phase := 1 / 2\<rparr>)) 0
       \<lparr>eng = constructor\<lparr>buffers := [(replicate BUF_FRAMES 0)[0 := 1, 1 := 3],
                                       replicate BUF_FRAMES 0],
                voices := (voices constructor)
                  [0 := (new_voice 0)\<lparr>playing := 1, pan := -1, phase := 1 / 2\<rparr>]\<rparr>,
        outL = [0], outR = [0]\<rparr> = Inr ps'
     \<and> read_sample (Some ((replicate BUF_FRAMES 0)[0 := 1, 1 := 3])) (1 / 2) = Inr 2
     \<and> outL ps' ! 0 = 2 \<and> outR ps' ! 0 = 0"
proof -
  let ?v = "(new_voice 0)\<lparr>playing := 1, pan := -1, phase := 1 / 2\<rparr>"
  let ?xs = "(replicate BUF_FRAMES (0::real))[0 := 1, 1 := 3]"
  let ?st = "constructor\<lparr>buffers := [?xs, replicate BUF_FRAMES 0],
                voices := (voices constructor)[0 := ?v]\<rparr>"
  let ?ps = "\<lparr>eng = ?st, outL = [0], outR = [0]\<rparr>"
  let ?c = "voice_consts 48000 (eng ?ps) ?v"
  let ?v1 = "level_slew (slewRate ?c) ?v"
  have 1: "engine_shape (eng ?ps)"
    by (simp add: engine_shape_def voices_constructor NUM_VOICES_def NUM_BUFFERS_def)
  have 3: "(0::nat) < NUM_VOICES" by (simp add: NUM_VOICES_def)
  have 4: "?v = voices (eng ?ps) ! 0" by (simp add: voices_constructor)
  have 5: "buffer ?v = 0 \<or> buffer ?v = 1" "truthy (playing ?v)"
    by (simp_all add: new_voice_def truthy_def)
  have 6: "0 < length (outL ?ps)" "0 < length (outR ?ps)" by simp_all
  have 7: "?xs = buffers (eng ?ps) ! nat \<lfloor>buffer ?v\<rfloor>" by (simp add: new_voice_def)
  have s: "spec_sample ?xs (phase ?v) = 2"
    by (simp add: spec_sample_def Let_def BUF_FRAMES_val)
  have l: "level ?v1 = 1" "fade_gain ?c ?v1 (phase ?v) = 1" "gainL ?c = 1" "gainR ?c = 0"
    by (simp_all add: level_slew_def fade_gain_def voice_consts_def new_voice_def truthy_def)
  from interpolated_read [where inMono = None, OF 1 3 4 5 6 refl 7 refl] obtain ps' where
    "frame 48000 None 0 ?c 0 ?ps = Inr ps'"
    "read_sample (Some ?xs) (phase ?v) = Inr (spec_sample ?xs (phase ?v))"
    "outL ps' ! 0 = outL ?ps ! 0
         + spec_sample ?xs (phase ?v) * level ?v1 * fade_gain ?c ?v1 (phase ?v) * gainL ?c"
    "outR ps' ! 0 = outR ?ps ! 0
         + spec_sample ?xs (phase ?v) * level ?v1 * fade_gain ?c ?v1 (phase ?v) * gainR ?c"
    by blast
  then have "frame 48000 None 0 (voice_consts 48000 ?st ?v) 0 ?ps = Inr ps'
     \<and> read_sample (Some ?xs) (1 / 2) = Inr 2 \<and> outL ps' ! 0 = 2 \<and> outR ps' ! 0 = 0"
    unfolding s l by simp
  then show ?thesis ..
qed


section \<open>Voice calls of the API\<close>

text \<open>
  C2, as amended. A voice-addressed call of the API does not check the voice index:
  for any index \<open>v\<close>, inside or outside 1 to 6, when the worklet node exists the call
  posts one message addressed to voice \<open>v - 1\<close> of the engine, and when there is no node
  it posts nothing and does nothing else. No call fails.
\<close>

theorem voice_calls_enqueue:
  "workletNode (softcut_enable v s \<lparr>workletNode = Some q\<rparr>)
     = Some (q @ [Voice_msg Enable (v - 1) (if s then 1 else 0)])
   \<and> workletNode (softcut_play v s \<lparr>workletNode = Some q\<rparr>)
     = Some (q @ [Voice_msg Play (v - 1) (if s then 1 else 0)])
   \<and> workletNode (softcut_rec v s \<lparr>workletNode = Some q\<rparr>)
     = Some (q @ [Voice_msg Rec (v - 1) (if s then 1 else 0)])
   \<and> workletNode (softcut_buffer v x \<lparr>workletNode = Some q\<rparr>)
     = Some (q @ [Voice_msg Buffer (v - 1) (x - 1)])
   \<and> workletNode (softcut_rate v x \<lparr>workletNode = Some q\<rparr>)
     = Some (q @ [Voice_msg Rate (v - 1) x])
   \<and> workletNode (softcut_level v x \<lparr>workletNode = Some q\<rparr>)
     = Some (q @ [Voice_msg Level (v - 1) x])
   \<and> workletNode (softcut_pan v x \<lparr>workletNode = Some q\<rparr>)
     = Some (q @ [Voice_msg Pan (v - 1) x])
   \<and> workletNode (softcut_position v x \<lparr>workletNode = Some q\<rparr>)
     = Some (q @ [Voice_msg Position (v - 1) x])
   \<and> workletNode (softcut_loop v s \<lparr>workletNode = Some q\<rparr>)
     = Some (q @ [Voice_msg Loop (v - 1) (if s then 1 else 0)])
   \<and> workletNode (softcut_loop_start v x \<lparr>workletNode = Some q\<rparr>)
     = Some (q @ [Voice_msg Loop_start (v - 1) x])
   \<and> workletNode (softcut_loop_end v x \<lparr>workletNode = Some q\<rparr>)
     = Some (q @ [Voice_msg Loop_end (v - 1) x])
   \<and> workletNode (softcut_fade_time v x \<lparr>workletNode = Some q\<rparr>)
     = Some (q @ [Voice_msg Fade_time (v - 1) x])
   \<and> workletNode (softcut_level_slew_time v x \<lparr>workletNode = Some q\<rparr>)
     = Some (q @ [Voice_msg Level_slew_time (v - 1) x])
   \<and> workletNode (softcut_rec_level v x \<lparr>workletNode = Some q\<rparr>)
     = Some (q @ [Voice_msg Rec_level (v - 1) x])
   \<and> workletNode (softcut_pre_level v x \<lparr>workletNode = Some q\<rparr>)
     = Some (q @ [Voice_msg Pre_level (v - 1) x])
   \<and> workletNode (softcut_phase_quant v x \<lparr>workletNode = Some q\<rparr>)
     = Some (q @ [Voice_msg Phase_quant (v - 1) x])
   \<and> sendVoice c v x \<lparr>workletNode = None\<rparr> = \<lparr>workletNode = None\<rparr>"
  by (simp add: softcut_enable_def softcut_play_def softcut_rec_def softcut_buffer_def
      softcut_rate_def softcut_level_def softcut_pan_def softcut_position_def
      softcut_loop_def softcut_loop_start_def softcut_loop_end_def softcut_fade_time_def
      softcut_level_slew_time_def softcut_rec_level_def softcut_pre_level_def
      softcut_phase_quant_def sendVoice_def send_def)

text \<open>
  \<open>enable(7, true)\<close> posts a message for voice 6 of the engine, which has the voices
  0 to 5; handling it raises a TypeError in the processor.
\<close>

theorem voice_out_of_range_counterexample:
  "workletNode (softcut_enable 7 True \<lparr>workletNode = Some []\<rparr>)
     = Some [Voice_msg Enable 6 1]"
  by (simp add: softcut_enable_def sendVoice_def send_def)

lemma voice_msg_out_of_range:
  assumes "length (voices st) = NUM_VOICES" and "k < 0 \<or> 6 \<le> k"
  shows "handleMessage sampleRate (Voice_msg c k x) st = Inl TypeError"
  using assms by (auto simp: index_of_def NUM_VOICES_def)

section \<open>Syncing to the beat grid\<close>

lemma wake_accurateSleep:
  assumes "0 < seconds" and "\<forall>k. sig = Some k \<longrightarrow> k \<notin> aborted c"
  shows "wake (fst (await t sig (accurateSleep now seconds sig c) c)) = Some (now + seconds)"
  using assms
  by (cases sig) (simp_all add: accurateSleep_def await_def wake_def Let_def)

lemma next_beat_later:
  fixes beat :: real
  assumes "0 < beat"
  shows "cb \<le> of_int \<lceil>(cb - offset) / beat\<rceil> * beat + offset"
proof -
  have "(cb - offset) / beat \<le> of_int \<lceil>(cb - offset) / beat\<rceil>" by linarith
  then have "(cb - offset) / beat * beat \<le> of_int \<lceil>(cb - offset) / beat\<rceil> * beat"
    using assms by (intro mult_right_mono) simp_all
  moreover have "(cb - offset) / beat * beat = cb - offset"
    using assms by simp
  ultimately show ?thesis by linarith
qed

text \<open>
  C7. For a positive \<open>beat\<close>, a caller whose signal has not aborted is woken by
  \<open>sync(beat, offset)\<close> after \<open>beat * 60 / tempo\<close> seconds when the transport is not
  running; when it is running, at the time the beat position reaches
  \<open>ceil((beats - offset) / beat) * beat + offset\<close>, moved one \<open>beat\<close> further when that is
  at most 0.0001 beats after the current position; this time is in the future.
\<close>

theorem sync_wait:
  assumes "0 < beat" and "0 < tempo c"
    and "\<forall>k. currentSignal c = Some k \<longrightarrow> k \<notin> aborted c"
    and "cb = getBeats now c"
    and "nb0 = of_int \<lceil>(cb - offset) / beat\<rceil> * beat + offset"
    and "nb = (if nb0 \<le> cb + 1 / 10000 then nb0 + beat else nb0)"
  shows "(\<not> running c \<longrightarrow>
            wake (fst (sync t now beat offset c)) = Some (now + beat * 60 / tempo c))
       \<and> (running c \<longrightarrow>
            wake (fst (sync t now beat offset c)) = Some (now + (nb - cb) * 60 / tempo c)
            \<and> now < now + (nb - cb) * 60 / tempo c
            \<and> getBeats (now + (nb - cb) * 60 / tempo c) c = nb)"
proof (rule conjI; rule impI)
  assume "\<not> running c"
  moreover have "0 < beat * (60 / tempo c)" using assms(1,2) by simp
  ultimately show "wake (fst (sync t now beat offset c)) = Some (now + beat * 60 / tempo c)"
    using wake_accurateSleep [OF _ assms(3), of "beat * (60 / tempo c)" t now]
    by (simp add: sync_def Let_def)
next
  assume r: "running c"
  have "cb \<le> nb0" unfolding assms(5) by (rule next_beat_later [OF assms(1)])
  then have lt: "cb < nb" using assms(1) by (auto simp: assms(6))
  then have pos: "(nb - cb) * (60 / tempo c) > 0" using assms(2) by simp
  have bz: "beat \<noteq> 0" using assms(1) by simp
  have s: "sync t now beat offset c
      = await t (currentSignal c)
          (accurateSleep now ((nb - cb) * (60 / tempo c)) (currentSignal c) c) c"
    unfolding sync_def Let_def assms(4) [symmetric] assms(5) [symmetric] assms(6) [symmetric]
    using r bz pos by (simp only: simp_thms if_True if_False)
  show "wake (fst (sync t now beat offset c)) = Some (now + (nb - cb) * 60 / tempo c)
      \<and> now < now + (nb - cb) * 60 / tempo c
      \<and> getBeats (now + (nb - cb) * 60 / tempo c) c = nb"
  proof (intro conjI)
    show "wake (fst (sync t now beat offset c)) = Some (now + (nb - cb) * 60 / tempo c)"
      using wake_accurateSleep [OF pos assms(3), of t now] by (simp add: s)
    show "now < now + (nb - cb) * 60 / tempo c" using pos by simp
    have "getBeats (now + (nb - cb) * 60 / tempo c) c
        = (now - refTime c) * (tempo c / 60) + refBeats c + (nb - cb)"
      using r assms(2) by (simp add: getBeats_def field_simps)
    also have "\<dots> = nb" using r by (simp add: assms(4) getBeats_def)
    finally show "getBeats (now + (nb - cb) * 60 / tempo c) c = nb" .
  qed
qed

theorem sync_wait_witness:
  "wake (fst (sync 1 10 1 0 (clock_init 0))) = Some (21 / 2)
   \<and> wake (fst (sync 1 10 1 0 ((clock_init 0)\<lparr>running := True\<rparr>))) = Some (21 / 2)
   \<and> getBeats (21 / 2) ((clock_init 0)\<lparr>running := True\<rparr>) = 21"
proof -
  let ?c = "(clock_init 0)\<lparr>running := True\<rparr>"
  have a: "\<forall>k. currentSignal c = Some k \<longrightarrow> k \<notin> aborted c"
    if "c = clock_init 0 \<or> c = ?c" for c
    using that by (auto simp: clock_init_def)
  have cb: "getBeats 10 ?c = 20" by (simp add: getBeats_def clock_init_def)
  have nb0: "of_int \<lceil>(getBeats 10 ?c - 0) / 1\<rceil> * 1 + 0 = (20::real)"
    by (simp add: cb)
  have 1: "wake (fst (sync 1 10 1 0 (clock_init 0))) = Some (21 / 2)"
    using sync_wait [where c = "clock_init 0" and beat = 1 and now = 10 and offset = 0
        and t = 1, OF _ _ _ refl refl refl] a
    by (simp add: clock_init_def)
  have 2: "wake (fst (sync 1 10 1 0 ?c)) = Some (21 / 2)
      \<and> getBeats (21 / 2) ?c = 21"
    using sync_wait [where c = ?c and beat = 1 and now = 10 and offset = 0
        and t = 1, OF _ _ _ refl refl refl] a
    by (simp add: cb) (simp add: clock_init_def)
  from 1 2 show ?thesis by blast
qed

section \<open>Cancelling a coroutine\<close>

text \<open>
  What holds of \<open>cancel\<close>: it removes the id, and is the identity on an id that is not
  in the map, as after a first cancel or after the coroutine has ended; it rejects the
  pending sleeps whose listener is on the signal of the coroutine, and a sleep or sync
  called with an aborted signal is rejected at once; the wrapper does not log an AbortError.
\<close>

lemma cancel_absent: "cid \<notin> coroutines c \<Longrightarrow> cancel cid c = c"
  by (simp add: cancel_def)

lemma cancel_removes: "cid \<notin> coroutines (cancel cid c)"
  by (simp add: cancel_def Let_def abort_def)

lemma cancel_twice: "cancel cid (cancel cid c) = cancel cid c"
  by (rule cancel_absent) (rule cancel_removes)

lemma cancel_aborts: "cid \<in> coroutines c \<Longrightarrow> cid \<in> aborted (cancel cid c)"
  by (simp add: cancel_def Let_def abort_def)

lemma cancel_rejects_own_signal:
  assumes "cid \<in> coroutines c" and "cid \<notin> aborted c"
  shows "rejected (cancel cid c)
           = rejected c @ map task (filter (\<lambda>s. signal s = Some cid) (sleepers c))"
    and "\<forall>s \<in> set (sleepers (cancel cid c)). signal s \<noteq> Some cid"
  using assms by (simp_all add: cancel_def Let_def abort_def)

lemma sleep_after_abort:
  "currentSignal c = Some cid \<Longrightarrow> cid \<in> aborted c \<Longrightarrow>
   sleep t now seconds c = (Rejected ''AbortError'', c)"
  by (simp add: sleep_def accurateSleep_def await_def Let_def)

lemma finish_abort_silent:
  "console (finish cid (Some ''AbortError'') c) = console c"
  "cid \<notin> coroutines (finish cid err c)"
  by (simp_all add: finish_def Let_def split: option.splits)

text \<open>
  C8, at the input where it fails. A coroutine whose code starts another coroutine and
  then sleeps, \<open>run(async () => { run(async () => { await sleep(10) }); await sleep(10) })\<close>,
  awaits a sleep whose abort listener is on the signal of the inner coroutine: the inner
  \<open>run\<close> has overwritten \<open>_currentSignal\<close>, and nothing restores it before the outer
  code calls \<open>sleep\<close>. Cancelling the outer coroutine, id 1, aborts its controller and
  removes its id, but both sleeps stay pending and no AbortError is delivered.
\<close>

theorem nested_run_cancel:
  "fst (run (\<lambda>a c. snd (sleep a 0 10 (snd (run (\<lambda>b c. snd (sleep b 0 10 c)) c))))
         (clock_init 0)) = 1
   \<and> coroutines (snd (run (\<lambda>a c. snd (sleep a 0 10 (snd (run (\<lambda>b c. snd (sleep b 0 10 c)) c))))
         (clock_init 0))) = {1, 2}
   \<and> sleepers (cancel 1
        (snd (run (\<lambda>a c. snd (sleep a 0 10 (snd (run (\<lambda>b c. snd (sleep b 0 10 c)) c))))
           (clock_init 0))))
      = [\<lparr>task = 2, signal = Some 2, coarseMs = 9997, targetTime = 10\<rparr>,
         \<lparr>task = 1, signal = Some 2, coarseMs = 9997, targetTime = 10\<rparr>]
   \<and> rejected (cancel 1
        (snd (run (\<lambda>a c. snd (sleep a 0 10 (snd (run (\<lambda>b c. snd (sleep b 0 10 c)) c))))
           (clock_init 0)))) = []
   \<and> coroutines (cancel 1
        (snd (run (\<lambda>a c. snd (sleep a 0 10 (snd (run (\<lambda>b c. snd (sleep b 0 10 c)) c))))
           (clock_init 0)))) = {2}
   \<and> aborted (cancel 1
        (snd (run (\<lambda>a c. snd (sleep a 0 10 (snd (run (\<lambda>b c. snd (sleep b 0 10 c)) c))))
           (clock_init 0)))) = {1}"
  by (simp add: run_def sleep_def accurateSleep_def await_def cancel_def abort_def
      clock_init_def Let_def insert_commute numeral_2_eq_2)

end
